theory Spec2Isabelle
  imports Main "HOL-Library.Char_ord" "HOL-Library.List_Lexorder" "HOL-Library.AList"
begin

section \<open>JavaScript values and exceptions\<close>

text \<open>
  The module \<^verbatim>\<open>dnd\<close> wraps the drag-and-drop events of HTML5 in two constructors,
  \<^verbatim>\<open>createSource\<close> and \<^verbatim>\<open>createTarget\<close>. Its source comes in two files: one that holds
  the registry \<^verbatim>\<open>current\<close> of the drag in progress, to which the line numbers below refer
  unless said otherwise, and \<^verbatim>\<open>src/js/dnd.js\<close>, without the registry.

  The module is written in JavaScript and begins with the directive \<^verbatim>\<open>'use strict'\<close>
  (line 9 of both source files), so every function of it is strict-mode code.
  The values that reach the code are modelled by a datatype. Numbers are the integers
  and \<^verbatim>\<open>NaN\<close>; strings are lists of ASCII characters.
\<close>

datatype jsval =
    Undefined
  | Null
  | Bool bool
  | Num int
  | NaN
  | Str string
  | Arr "jsval list"
  | Obj "(string \<times> jsval) list"

text \<open>
  The exceptions the code can end with: \<^verbatim>\<open>new Error(msg)\<close>, thrown by the module itself,
  and the ones the language raises: a \<^verbatim>\<open>TypeError\<close> (a property read on \<^verbatim>\<open>undefined\<close> or
  \<^verbatim>\<open>null\<close>, a call of something that is no function, and, in strict mode, a property
  write on a primitive value) and a \<^verbatim>\<open>ReferenceError\<close> (the use of an identifier that is
  declared nowhere).
\<close>

datatype error = Error string | TypeError | ReferenceError

text \<open>\<^verbatim>\<open>!v\<close> is true exactly for the falsy values.\<close>

fun truthy :: "jsval \<Rightarrow> bool" where
  "truthy Undefined = False"
| "truthy Null = False"
| "truthy (Bool b) = b"
| "truthy (Num n) = (n \<noteq> 0)"
| "truthy NaN = False"
| "truthy (Str s) = (s \<noteq> [])"
| "truthy (Arr xs) = True"
| "truthy (Obj fs) = True"

text \<open>\<^verbatim>\<open>typeof v === 'string'\<close> and \<^verbatim>\<open>v instanceof Array\<close>.\<close>

fun is_string :: "jsval \<Rightarrow> bool" where
  "is_string (Str s) = True"
| "is_string v = False"

fun is_array :: "jsval \<Rightarrow> bool" where
  "is_array (Arr xs) = True"
| "is_array v = False"

subsection \<open>String conversion and the string methods used by \<^verbatim>\<open>camelCase\<close>\<close>

fun digits :: "nat \<Rightarrow> string" where
  "digits n = (if n < 10 then [char_of (48 + n)]
               else digits (n div 10) @ [char_of (48 + n mod 10)])"

declare digits.simps [simp del]

fun join_comma :: "string list \<Rightarrow> string" where
  "join_comma [] = []"
| "join_comma [s] = s"
| "join_comma (s # t # ss) = s @ '','' @ join_comma (t # ss)"

text \<open>
  The conversion that \<^verbatim>\<open>+\<close> applies to a left operand when the right one is a string.
  An array is joined with commas, \<^verbatim>\<open>undefined\<close> and \<^verbatim>\<open>null\<close> elements giving the
  empty string; a plain object gives \<^verbatim>\<open>[object Object]\<close>.
\<close>

fun toString :: "jsval \<Rightarrow> string" where
  "toString Undefined = ''undefined''"
| "toString Null = ''null''"
| "toString (Bool b) = (if b then ''true'' else ''false'')"
| "toString (Num n) = (if n < 0 then ''-'' @ digits (nat (- n)) else digits (nat n))"
| "toString NaN = ''NaN''"
| "toString (Str s) = s"
| "toString (Arr xs) =
     join_comma (map (\<lambda>x. if x = Undefined \<or> x = Null then [] else toString x) xs)"
| "toString (Obj fs) = ''[object Object]''"

text \<open>\<^verbatim>\<open>c.toUpperCase()\<close> on one ASCII character.\<close>

definition toUpperCase :: "char \<Rightarrow> char" where
  "toUpperCase c =
     (let n = (of_char c :: nat) in if 97 \<le> n \<and> n \<le> 122 then char_of (n - 32) else c)"

text \<open>\<^verbatim>\<open>s.charAt(0).toUpperCase() + s.slice(1)\<close>; on the empty string both parts are empty.\<close>

fun capitalize :: "string \<Rightarrow> string" where
  "capitalize [] = []"
| "capitalize (c # cs) = toUpperCase c # cs"

section \<open>The effect encoder\<close>

text \<open>
  \<^verbatim>\<open>
  function camelCase(first, second) {
    if (!first) {
      return second;
    } else {
      return first + second.charAt(0).toUpperCase() + second.slice(1);
    }
  }
  \<close>
  Only a string has a \<^verbatim>\<open>charAt\<close> method: on \<^verbatim>\<open>undefined\<close> and \<^verbatim>\<open>null\<close> the property read
  throws, on every other value \<^verbatim>\<open>charAt\<close> is \<^verbatim>\<open>undefined\<close> and the call throws.
\<close>

fun camelCase :: "jsval \<Rightarrow> jsval \<Rightarrow> error + jsval" where
  "camelCase first second =
     (if \<not> truthy first then Inr second
      else (case second of
              Str s \<Rightarrow> Inr (Str (toString first @ capitalize s))
            | _ \<Rightarrow> Inl TypeError))"

text \<open>
  The \<^verbatim>\<open>switch\<close> of \<^verbatim>\<open>createEffectString\<close> on the normalised array:
  \<^verbatim>\<open>
  switch (effects.length) {
  case 0:  return 'none';
  case 1:  return effects[0];
  case 3:  return 'all';
  default: effects.sort();
           return effects.reduce(camelCase(effects));
  }
  \<close>
  In the default branch the argument of \<^verbatim>\<open>reduce\<close> is the call \<^verbatim>\<open>camelCase(effects)\<close>,
  with \<^verbatim>\<open>second\<close> left \<^verbatim>\<open>undefined\<close>; were it to return, its result would be no function
  and \<^verbatim>\<open>reduce\<close> would throw a \<^verbatim>\<open>TypeError\<close>.
\<close>

definition effectSwitch :: "string list \<Rightarrow> error + string" where
  "effectSwitch effects =
     (if length effects = 0 then Inr ''none''
      else if length effects = 1 then Inr (effects ! 0)
      else if length effects = 3 then Inr ''all''
      else (let sorted = sort effects in
            case camelCase (Arr (map Str sorted)) Undefined of
              Inl e \<Rightarrow> Inl e
            | Inr f \<Rightarrow> Inl TypeError))"

text \<open>
  \<^verbatim>\<open>
  function createEffectString(effects) {
    if (!effects) {
      effects = [];
    } else if (typeof effects === 'string') {
      effects = [effects];
    } else {
      throw new Error('cannot create effect string'); // todo: change?
    }
    switch (effects.length) ...
  }
  \<close>
  The thrown \<^verbatim>\<open>Error\<close> is the failure the specification calls InvalidConfiguration.
\<close>

definition InvalidConfiguration :: error where
  "InvalidConfiguration = Error ''cannot create effect string''"

definition createEffectString :: "jsval \<Rightarrow> error + string" where
  "createEffectString effects =
     (if \<not> truthy effects then effectSwitch []
      else (case effects of
              Str s \<Rightarrow> effectSwitch [s]
            | _ \<Rightarrow> Inl InvalidConfiguration))"

section \<open>The platform: elements and the transfer carrier\<close>

text \<open>
  Modelled from the spec: the element handles and the transfer carrier
  (\<^verbatim>\<open>evt.dataTransfer\<close>), which belong to the platform and not to the module. The module
  uses the carrier's fields \<^verbatim>\<open>effectAllowed\<close> and \<^verbatim>\<open>dropEffect\<close>, and \<^verbatim>\<open>setDragImage\<close>,
  \<^verbatim>\<open>setData\<close>, \<^verbatim>\<open>types\<close> and \<^verbatim>\<open>getData\<close>: a keyed data setter, the list of the available
  types, a keyed data getter and the assignment of a drag image with its offsets. The data
  is an ordered store keyed by type: \<^verbatim>\<open>setData\<close> replaces the value of a type already there
  and appends a new one, \<^verbatim>\<open>types\<close> lists the keys, \<^verbatim>\<open>getData\<close> gives the empty string for a
  missing type.
\<close>

type_synonym elem = nat

record carrier =
  effectAllowed :: string
  dropEffect :: string
  dragImage :: "(elem \<times> int \<times> int) option"
  items :: "(string \<times> string) list"

definition setData :: "string \<Rightarrow> string \<Rightarrow> carrier \<Rightarrow> carrier" where
  "setData ty v tr = tr\<lparr>items := AList.update ty v (items tr)\<rparr>"

definition types :: "carrier \<Rightarrow> string list" where
  "types tr = map fst (items tr)"

definition getData :: "carrier \<Rightarrow> string \<Rightarrow> string" where
  "getData tr ty = (case map_of (items tr) ty of None \<Rightarrow> [] | Some v \<Rightarrow> v)"

definition setDragImage :: "elem \<Rightarrow> int \<Rightarrow> int \<Rightarrow> carrier \<Rightarrow> carrier" where
  "setDragImage img x y tr = tr\<lparr>dragImage := Some (img, x, y)\<rparr>"

section \<open>Descriptors, the registry and the record of callback invocations\<close>

text \<open>
  An element of a source's \<^verbatim>\<open>data\<close> array is a string (short for type \<^verbatim>\<open>text\<close>) or a
  pair \<^verbatim>\<open>{type, value}\<close>. A view is an element with optional offsets \<^verbatim>\<open>x\<close> and \<^verbatim>\<open>y\<close>.
\<close>

datatype data_item = Shorthand string | Typed string string

record view =
  view_elem :: elem
  view_x :: "int option"
  view_y :: "int option"

text \<open>
  The payload handed to the \<^verbatim>\<open>onDrop\<close> callbacks is a string or a plain object from
  types to strings; the argument of \<^verbatim>\<open>onDrop\<close> is the object literal
  \<^verbatim>\<open>{ fromElement: current.element, toElement: evt.target, data: payload }\<close>.
\<close>

datatype payload = Bare string | Mapping "(string \<times> string) list"

record drop_record =
  fromElement :: "elem option"
  toElement :: elem
  data :: payload

text \<open>
  A client callback is a function of its argument that returns a value or throws;
  the module never catches what a callback throws.
\<close>

type_synonym 'a callback = "'a \<Rightarrow> error + jsval"

text \<open>
  The object \<^verbatim>\<open>that\<close> built by \<^verbatim>\<open>createSource\<close> (lines 92 to 102). The elements it is
  attached to are whatever the caller passed: an element, or \<^verbatim>\<open>null\<close> or \<^verbatim>\<open>undefined\<close>
  (\<open>None\<close>).
\<close>

record source =
  sources :: "elem option list"
  effects :: string
  dataArray :: "data_item list"
  view :: "view option"
  onStart :: "elem callback option"
  onCancel :: "elem callback option"
  onDrop :: "drop_record callback option"

text \<open>The object \<^verbatim>\<open>that\<close> built by \<^verbatim>\<open>createTarget\<close> (lines 219 to 227).\<close>

record target =
  targets :: "elem option list"
  effect :: string
  accepts :: jsval
  onEnter :: "elem callback option"
  onLeave :: "elem callback option"
  onDrop_target :: "drop_record callback option"

text \<open>
  Every invocation of a client callback is recorded, in order, with its argument and with
  what the callback could observe at that moment: the registry and the carrier of the
  event being handled.
\<close>

datatype callback_name = OnStart | OnCancel | SourceOnDrop | OnEnter | OnLeave | TargetOnDrop

datatype callback_arg = ElemArg elem | DropArg drop_record

record invocation =
  callee :: callback_name
  argument :: callback_arg
  source_then :: "source option"
  element_then :: "elem option"
  transfer_then :: "carrier option"

text \<open>
  \<^verbatim>\<open>
  var current = {
    source: null,
    element: null
  };
  \<close>
  The state of the module is this object, private to the module, together with the
  record of invocations.
\<close>

record world =
  current_source :: "source option"
  current_element :: "elem option"
  calls :: "invocation list"

definition initial :: world where
  "initial = \<lparr>current_source = None, current_element = None, calls = []\<rparr>"

definition invoke :: "callback_name \<Rightarrow> callback_arg \<Rightarrow> carrier option \<Rightarrow> world \<Rightarrow> world" where
  "invoke c a tr w =
     w\<lparr>calls := calls w @
          [\<lparr>callee = c, argument = a, source_then = current_source w,
            element_then = current_element w, transfer_then = tr\<rparr>]\<rparr>"

text \<open>\<^verbatim>\<open>current.source = null; current.element = null;\<close>\<close>

definition clear :: "world \<Rightarrow> world" where
  "clear w = (w\<lparr>current_source := None\<rparr>)\<lparr>current_element := None\<rparr>"

section \<open>The handlers of a drag source\<close>

text \<open>
  \<^verbatim>\<open>
  function setSourceProperties(ds, transfer) {
    transfer.effectAllowed = ds.effects;
    if (ds.view) {
      transfer.setDragImage(ds.view, (ds.view.x || 0), (ds.view.y || 0));
    }
    ds.data.forEach(function(d) {
      if ((typeof d) === 'string') {
        transfer.setData('text', d);
      } else {
        transfer.setData(d.type, d.value);
      }
    });
  }
  \<close>
\<close>

definition or_zero :: "int option \<Rightarrow> int" where
  "or_zero x = (case x of None \<Rightarrow> 0 | Some n \<Rightarrow> if n = 0 then 0 else n)"

definition setItem :: "data_item \<Rightarrow> carrier \<Rightarrow> carrier" where
  "setItem d transfer =
     (case d of
        Shorthand s \<Rightarrow> setData ''text'' s transfer
      | Typed ty v \<Rightarrow> setData ty v transfer)"

definition setSourceProperties :: "source \<Rightarrow> carrier \<Rightarrow> carrier" where
  "setSourceProperties ds transfer =
     (let t1 = transfer\<lparr>effectAllowed := effects ds\<rparr>;
          t2 = (case view ds of
                  None \<Rightarrow> t1
                | Some v \<Rightarrow> setDragImage (view_elem v) (or_zero (view_x v)) (or_zero (view_y v)) t1)
      in fold setItem (dataArray ds) t2)"

text \<open>
  The \<^verbatim>\<open>dragstart\<close> listener (lines 140 to 146), for the event target \<open>el\<close> and the
  event's carrier:
  \<^verbatim>\<open>
  current.source = ds;
  current.element = evt.target;

  setSourceProperties(ds, evt.dataTransfer);
  ds.onStart && ds.onStart(evt.target);
  \<close>
  A handler gives back the exception it ended with, if any, and the carrier and the state
  as it left them.
\<close>

definition dragstart :: "source \<Rightarrow> elem \<Rightarrow> carrier \<Rightarrow> world \<Rightarrow> error option \<times> carrier \<times> world" where
  "dragstart ds el transfer w =
     (let w1 = w\<lparr>current_source := Some ds\<rparr>;
          w2 = w1\<lparr>current_element := Some el\<rparr>;
          t1 = setSourceProperties ds transfer
      in case onStart ds of
           None \<Rightarrow> (None, t1, w2)
         | Some f \<Rightarrow>
             (let w3 = invoke OnStart (ElemArg el) (Some t1) w2
              in case f el of
                   Inl e \<Rightarrow> (Some e, t1, w3)
                 | Inr r \<Rightarrow> (None, t1, w3)))"

text \<open>
  The \<^verbatim>\<open>dragend\<close> listener (lines 152 to 158):
  \<^verbatim>\<open>
  if (current.source !== null) {
    ds.onCancel && ds.onCancel(evt.target);
    current.source = null;
    current.element = null;
  }
  \<close>
\<close>

definition dragend :: "source \<Rightarrow> elem \<Rightarrow> world \<Rightarrow> error option \<times> world" where
  "dragend ds el w =
     (if current_source w \<noteq> None then
        (case onCancel ds of
           None \<Rightarrow> (None, clear w)
         | Some f \<Rightarrow>
             (let w1 = invoke OnCancel (ElemArg el) None w
              in case f el of
                   Inl e \<Rightarrow> (Some e, w1)
                 | Inr r \<Rightarrow> (None, clear w1)))
      else (None, w))"

section \<open>The handlers of a drop target\<close>

text \<open>
  \<^verbatim>\<open>
  function setTargetProperties(dt, data) {
  }
  \<close>
  (lines 292 and 293 of the file that holds the registry). The file
  \<^verbatim>\<open>src/js/dnd.js\<close> has, at lines 247 to 249,
  \<^verbatim>\<open>
  function setTargetProperties(dt, data) {
    data.dropEffect = dt.effect;
  }
  \<close>
\<close>

definition setTargetProperties :: "target \<Rightarrow> carrier \<Rightarrow> carrier" where
  "setTargetProperties dt transfer = transfer"

definition setTargetProperties_dnd_js :: "target \<Rightarrow> carrier \<Rightarrow> carrier" where
  "setTargetProperties_dnd_js dt transfer = transfer\<lparr>dropEffect := effect dt\<rparr>"

text \<open>
  The \<^verbatim>\<open>dragenter\<close> listener, the same text in both files (lines 245 to 250, and lines
  213 to 218 of \<^verbatim>\<open>src/js/dnd.js\<close>):
  \<^verbatim>\<open>
  setTargetProperties(dt, evt.dataTransfer)
  if (!dt.onEnter || dt.onEnter(evt.target)) {
    evt.preventDefault()
  }
  \<close>
  The second component of the result tells whether \<^verbatim>\<open>evt.preventDefault()\<close> was called.
  The listener is given the \<^verbatim>\<open>setTargetProperties\<close> of its file.
\<close>

definition dragenter_with ::
  "(target \<Rightarrow> carrier \<Rightarrow> carrier) \<Rightarrow> target \<Rightarrow> elem \<Rightarrow> carrier \<Rightarrow> world
     \<Rightarrow> error option \<times> bool \<times> carrier \<times> world" where
  "dragenter_with stp dt el transfer w =
     (let t1 = stp dt transfer
      in case onEnter dt of
           None \<Rightarrow> (None, True, t1, w)
         | Some f \<Rightarrow>
             (let w1 = invoke OnEnter (ElemArg el) (Some t1) w
              in case f el of
                   Inl e \<Rightarrow> (Some e, False, t1, w1)
                 | Inr r \<Rightarrow> (None, truthy r, t1, w1)))"

definition dragenter :: "target \<Rightarrow> elem \<Rightarrow> carrier \<Rightarrow> world \<Rightarrow> error option \<times> bool \<times> carrier \<times> world" where
  "dragenter = dragenter_with setTargetProperties"

definition dragenter_dnd_js :: "target \<Rightarrow> elem \<Rightarrow> carrier \<Rightarrow> world \<Rightarrow> error option \<times> bool \<times> carrier \<times> world" where
  "dragenter_dnd_js = dragenter_with setTargetProperties_dnd_js"

text \<open>
  The \<^verbatim>\<open>dragleave\<close> listener (lines 255 to 259) calls \<^verbatim>\<open>dt.onLeave(evt.target)\<close> if there is
  one; the \<^verbatim>\<open>dragover\<close> listener (lines 264 to 266) is \<^verbatim>\<open>evt.preventDefault()\<close>.
\<close>

definition dragleave :: "target \<Rightarrow> elem \<Rightarrow> world \<Rightarrow> error option \<times> world" where
  "dragleave dt el w =
     (case onLeave dt of
        None \<Rightarrow> (None, w)
      | Some f \<Rightarrow>
          (let w1 = invoke OnLeave (ElemArg el) None w
           in case f el of
                Inl e \<Rightarrow> (Some e, w1)
              | Inr r \<Rightarrow> (None, w1)))"

definition dragover :: "target \<Rightarrow> elem \<Rightarrow> world \<Rightarrow> error option \<times> bool \<times> world" where
  "dragover dt el w = (None, True, w)"

text \<open>
  The assignment \<^verbatim>\<open>payload[type] = tr.getData(type)\<close> of the \<^verbatim>\<open>drop\<close> listener. The assigned
  value is always a string. On a plain object the assignment sets the property. On a string,
  a primitive value, it throws a \<^verbatim>\<open>TypeError\<close>, the code being strict. The one exception
  on both is the key \<^verbatim>\<open>__proto__\<close>, whose inherited setter ignores a string.
\<close>

definition put :: "payload \<Rightarrow> string \<Rightarrow> string \<Rightarrow> error + payload" where
  "put p ty v =
     (if ty = ''__proto__'' then Inr p
      else (case p of
              Bare s \<Rightarrow> Inl TypeError
            | Mapping m \<Rightarrow> Inr (Mapping (AList.update ty v m))))"

text \<open>
  \<^verbatim>\<open>
  Array.prototype.forEach.call(tr.types, function(type) {
    payload[type] = tr.getData(type);
  });
  \<close>
\<close>

fun putAll :: "carrier \<Rightarrow> string list \<Rightarrow> payload \<Rightarrow> error + payload" where
  "putAll tr [] p = Inr p"
| "putAll tr (ty # tys) p =
     (case put p ty (getData tr ty) of
        Inl e \<Rightarrow> Inl e
      | Inr p' \<Rightarrow> putAll tr tys p')"

text \<open>
  \<^verbatim>\<open>var payload = (tr.types.length === 1) ? tr.getData(tr.types[0]) : {};\<close> followed by
  the loop above.
\<close>

definition buildPayload :: "carrier \<Rightarrow> error + payload" where
  "buildPayload tr =
     putAll tr (types tr)
       (if length (types tr) = 1 then Bare (getData tr (types tr ! 0)) else Mapping [])"

text \<open>
  The \<^verbatim>\<open>drop\<close> listener (lines 271 to 288; the call of \<^verbatim>\<open>console.log\<close> is left out):
  \<^verbatim>\<open>
  var tr = evt.dataTransfer;
  if (dt.onDrop) {
    var payload = ...;
    Array.prototype.forEach.call(tr.types, ...);
    dt.onDrop({ fromElement: current.element, toElement: evt.target, data: payload });

    if (current.source.onDrop) {
      current.source.onDrop({ fromElement: current.element, toElement: evt.target, data: payload });
    }
    current.source = null;
    current.element = null;
  }
  \<close>
  Reading \<^verbatim>\<open>current.source.onDrop\<close> while \<^verbatim>\<open>current.source\<close> is \<^verbatim>\<open>null\<close> throws.
\<close>

definition drop_handler :: "target \<Rightarrow> elem \<Rightarrow> carrier \<Rightarrow> world \<Rightarrow> error option \<times> world" where
  "drop_handler dt el tr w =
     (case onDrop_target dt of
        None \<Rightarrow> (None, w)
      | Some f \<Rightarrow>
          (case buildPayload tr of
             Inl e \<Rightarrow> (Some e, w)
           | Inr payload \<Rightarrow>
               (let r1 = \<lparr>fromElement = current_element w, toElement = el, data = payload\<rparr>;
                    w1 = invoke TargetOnDrop (DropArg r1) (Some tr) w
                in case f r1 of
                     Inl e \<Rightarrow> (Some e, w1)
                   | Inr x \<Rightarrow>
                       (case current_source w1 of
                          None \<Rightarrow> (Some TypeError, w1)
                        | Some s \<Rightarrow>
                            (case onDrop s of
                               None \<Rightarrow> (None, clear w1)
                             | Some g \<Rightarrow>
                                 (let r2 = \<lparr>fromElement = current_element w1, toElement = el,
                                            data = payload\<rparr>;
                                      w2 = invoke SourceOnDrop (DropArg r2) (Some tr) w1
                                  in case g r2 of
                                       Inl e \<Rightarrow> (Some e, w2)
                                     | Inr y \<Rightarrow> (None, clear w2)))))))"

section \<open>Events of a gesture\<close>

text \<open>
  The platform delivers the events one at a time, each listener running to its end (or to
  its exception) before the next event. An event names the descriptor whose listener runs,
  the event target and, where the listener uses it, the carrier.
\<close>

datatype event =
    DragStart source elem carrier
  | DragEnd source elem
  | DragEnter target elem carrier
  | DragLeave target elem
  | DragOver target elem
  | Drop target elem carrier

fun step :: "world \<Rightarrow> event \<Rightarrow> world" where
  "step w (DragStart ds el tr) = snd (snd (dragstart ds el tr w))"
| "step w (DragEnd ds el) = snd (dragend ds el w)"
| "step w (DragEnter dt el tr) = snd (snd (snd (dragenter dt el tr w)))"
| "step w (DragLeave dt el) = snd (dragleave dt el w)"
| "step w (DragOver dt el) = snd (snd (dragover dt el w))"
| "step w (Drop dt el tr) = snd (drop_handler dt el tr w)"

definition run :: "world \<Rightarrow> event list \<Rightarrow> world" where
  "run w evs = foldl step w evs"

text \<open>The registry is idle, or dragging, or neither (partially populated).\<close>

definition Idle :: "world \<Rightarrow> bool" where
  "Idle w = (current_source w = None \<and> current_element w = None)"

definition Dragging :: "world \<Rightarrow> bool" where
  "Dragging w = (current_source w \<noteq> None \<and> current_element w \<noteq> None)"

text \<open>How often a callback was invoked.\<close>

definition invocations :: "callback_name \<Rightarrow> world \<Rightarrow> invocation list" where
  "invocations c w = filter (\<lambda>i. callee i = c) (calls w)"

section \<open>Constructing sources and targets\<close>

text \<open>
  \<^verbatim>\<open>
  function createDataArray(data) {
    if (typeof data === 'undefined') {
      return [];
    } else {
      return (data instanceof Array ? data : [data]);
    }
  }
  \<close>
\<close>

datatype data_config = NoData | Item data_item | Items "data_item list"

fun createDataArray :: "data_config \<Rightarrow> data_item list" where
  "createDataArray NoData = []"
| "createDataArray (Item d) = [d]"
| "createDataArray (Items ds) = ds"

text \<open>
  The listeners that the constructors attach are closures over the descriptor; a listener
  is named by the handler it runs and that descriptor. An element of the document has its
  attributes and its listeners, in the order they were added.

  The file \<^verbatim>\<open>src/js/dnd.js\<close> holds two other states of the module. Its first part (lines
  1 to 249) builds a descriptor whose \<^verbatim>\<open>data\<close> is the option as given
  (\<^verbatim>\<open>data: options.data\<close>), and its listeners are other closures (lines 122 to 129: they
  do not touch a registry).
\<close>

record source_dnd_js =
  sources_dnd_js :: "elem option list"
  effects_dnd_js :: string
  data_dnd_js :: data_config
  view_dnd_js :: "view option"
  onStart_dnd_js :: "elem callback option"
  onCancel_dnd_js :: "elem callback option"
  onDrop_dnd_js :: "drop_record callback option"

datatype listener =
    DragStartListener source
  | DragEndListener source
  | DragEnterListener target
  | DragLeaveListener target
  | DragOverListener target
  | DropListener target
  | DragStartListener_dnd_js source_dnd_js
  | DragEndListener_dnd_js source_dnd_js

record element =
  attributes :: "(string \<times> string) list"
  listeners :: "(string \<times> listener) list"

type_synonym document = "elem \<Rightarrow> element"

text \<open>
  \<^verbatim>\<open>src.setAttribute(name, v)\<close> and \<^verbatim>\<open>src.addEventListener(kind, l)\<close>. On \<^verbatim>\<open>null\<close> and
  \<^verbatim>\<open>undefined\<close> the property read throws a \<^verbatim>\<open>TypeError\<close>. An operation on the document gives
  back the exception it ended with, if any, and the document as it left it.
\<close>

definition setAttribute ::
  "string \<Rightarrow> string \<Rightarrow> elem option \<Rightarrow> document \<Rightarrow> error option \<times> document" where
  "setAttribute name v h doc =
     (case h of
        None \<Rightarrow> (Some TypeError, doc)
      | Some el \<Rightarrow>
          (None, doc(el := (doc el)\<lparr>attributes := AList.update name v (attributes (doc el))\<rparr>)))"

definition addEventListener ::
  "string \<Rightarrow> listener \<Rightarrow> elem option \<Rightarrow> document \<Rightarrow> error option \<times> document" where
  "addEventListener kind l h doc =
     (case h of
        None \<Rightarrow> (Some TypeError, doc)
      | Some el \<Rightarrow> (None, doc(el := (doc el)\<lparr>listeners := listeners (doc el) @ [(kind, l)]\<rparr>)))"

text \<open>One statement after another: an exception of the first ends both.\<close>

definition and_then ::
  "error option \<times> document \<Rightarrow> (document \<Rightarrow> error option \<times> document)
     \<Rightarrow> error option \<times> document" where
  "and_then r k = (case fst r of Some e \<Rightarrow> (Some e, snd r) | None \<Rightarrow> k (snd r))"

text \<open>
  Modelled from the spec: \<^verbatim>\<open>dom.forEach\<close>, of the required module \<^verbatim>\<open>dom\<close>, which is not
  part of the source. It is the traversal that applies an operation to each element of a
  collection in turn; an exception of the operation ends the traversal. The collections it
  is given here, \<^verbatim>\<open>ds.sources\<close> and \<^verbatim>\<open>dt.targets\<close>, are always arrays.
\<close>

fun forEach ::
  "'a list \<Rightarrow> ('a \<Rightarrow> document \<Rightarrow> error option \<times> document) \<Rightarrow> document
     \<Rightarrow> error option \<times> document" where
  "forEach [] f doc = (None, doc)"
| "forEach (x # xs) f doc = and_then (f x doc) (forEach xs f)"

text \<open>\<^verbatim>\<open>(src instanceof Array ? src : [src])\<close>\<close>

datatype 'a one_or_many = One 'a | Many "'a list"

fun toArray :: "'a one_or_many \<Rightarrow> 'a list" where
  "toArray (One x) = [x]"
| "toArray (Many xs) = xs"

text \<open>
  The \<^verbatim>\<open>options\<close> argument of \<^verbatim>\<open>createSource\<close>; an absent callback is \<open>None\<close>. The argument
  itself may be \<^verbatim>\<open>undefined\<close> or \<^verbatim>\<open>null\<close>, which is the \<open>None\<close> of \<open>source_options option\<close>.
\<close>

record source_options =
  opt_effects :: jsval
  opt_data :: data_config
  opt_view :: "view option"
  opt_onStart :: "elem callback option"
  opt_onCancel :: "elem callback option"
  opt_onDrop :: "drop_record callback option"

text \<open>
  The first statement of \<^verbatim>\<open>createSource\<close> is the call \<^verbatim>\<open>checkOptions(options)\<close> (line 90).
  The file that holds the registry declares no \<^verbatim>\<open>checkOptions\<close>, and the module is strict
  code: the call throws a \<^verbatim>\<open>ReferenceError\<close>. The file \<^verbatim>\<open>src/js/dnd.js\<close> declares the function
  for its own \<^verbatim>\<open>createSource\<close>, at line 96, with an empty body:
  \<^verbatim>\<open>function checkOptions(options) {}\<close>.
\<close>

definition checkOptions :: "source_options option \<Rightarrow> error option" where
  "checkOptions options = Some ReferenceError"

definition checkOptions_dnd_js :: "source_options option \<Rightarrow> error option" where
  "checkOptions_dnd_js options = None"

text \<open>
  \<^verbatim>\<open>
  function makeDraggable(ds) {
    dom.forEach(ds.sources, function(src) {
      src.setAttribute('draggable', 'true');
    });
  }
  \<close>
  The text is the same in both files.
\<close>

definition makeDraggable :: "source \<Rightarrow> document \<Rightarrow> error option \<times> document" where
  "makeDraggable ds doc = forEach (sources ds) (setAttribute ''draggable'' ''true'') doc"

definition makeDraggable_dnd_js :: "source_dnd_js \<Rightarrow> document \<Rightarrow> error option \<times> document" where
  "makeDraggable_dnd_js ds doc =
     forEach (sources_dnd_js ds) (setAttribute ''draggable'' ''true'') doc"

text \<open>
  \<^verbatim>\<open>setupSourceEvents\<close> (lines 138 to 160, and lines 119 to 131 of \<^verbatim>\<open>src/js/dnd.js\<close>): for
  each element of \<^verbatim>\<open>ds.sources\<close>, the \<^verbatim>\<open>dragstart\<close> listener is added, then the \<^verbatim>\<open>dragend\<close>
  listener.
\<close>

definition setupSourceEvents :: "source \<Rightarrow> document \<Rightarrow> error option \<times> document" where
  "setupSourceEvents ds doc =
     forEach (sources ds)
       (\<lambda>src d. and_then (addEventListener ''dragstart'' (DragStartListener ds) src d)
                   (addEventListener ''dragend'' (DragEndListener ds) src))
       doc"

definition setupSourceEvents_dnd_js :: "source_dnd_js \<Rightarrow> document \<Rightarrow> error option \<times> document" where
  "setupSourceEvents_dnd_js ds doc =
     forEach (sources_dnd_js ds)
       (\<lambda>src d. and_then (addEventListener ''dragstart'' (DragStartListener_dnd_js ds) src d)
                   (addEventListener ''dragend'' (DragEndListener_dnd_js ds) src))
       doc"

text \<open>
  \<^verbatim>\<open>
  exports.createSource = function(src, options) {
    checkOptions(options);

    var that = {
      sources: (src instanceof Array ? src : [src]),
      effects: createEffectString(options.effects),
      data: createDataArray(options.data),
      view: options.view || null,
      onStart: options.onStart || null,
      onCancel: options.onCancel || null,
      onDrop: options.onDrop || null
    };

    makeDraggable(that);
    setupSourceEvents(that);

    return that;
  };
  \<close>
  The object literal, for the options and the token that the encoder returned:
\<close>

definition that_source :: "elem option one_or_many \<Rightarrow> source_options \<Rightarrow> string \<Rightarrow> source" where
  "that_source src opts token =
     \<lparr>sources = toArray src,
      effects = token,
      dataArray = createDataArray (opt_data opts),
      view = opt_view opts,
      onStart = opt_onStart opts,
      onCancel = opt_onCancel opts,
      onDrop = opt_onDrop opts\<rparr>"

text \<open>
  The result of \<^verbatim>\<open>createSource\<close> is the exception or the descriptor, and the document as
  the call left it. Reading \<^verbatim>\<open>options.effects\<close> throws a \<^verbatim>\<open>TypeError\<close> when \<^verbatim>\<open>options\<close> is
  \<^verbatim>\<open>undefined\<close> or \<^verbatim>\<open>null\<close>.
\<close>

definition createSource ::
  "elem option one_or_many \<Rightarrow> source_options option \<Rightarrow> document
     \<Rightarrow> (error + source) \<times> document" where
  "createSource src options doc =
     (case checkOptions options of
        Some e \<Rightarrow> (Inl e, doc)
      | None \<Rightarrow>
          (case options of
             None \<Rightarrow> (Inl TypeError, doc)
           | Some opts \<Rightarrow>
               (case createEffectString (opt_effects opts) of
                  Inl e \<Rightarrow> (Inl e, doc)
                | Inr token \<Rightarrow>
                    (let that = that_source src opts token;
                         r = and_then (makeDraggable that doc) (setupSourceEvents that)
                     in case fst r of
                          Some e \<Rightarrow> (Inl e, snd r)
                        | None \<Rightarrow> (Inr that, snd r)))))"

text \<open>
  \<^verbatim>\<open>createSource\<close> of \<^verbatim>\<open>src/js/dnd.js\<close> (lines 74 to 94): the same statements in the same
  order, with \<^verbatim>\<open>data: options.data\<close> and \<^verbatim>\<open>view: options.view\<close> in the object literal, and
  with the \<^verbatim>\<open>checkOptions\<close> that this file declares.
\<close>

definition that_source_dnd_js ::
  "elem option one_or_many \<Rightarrow> source_options \<Rightarrow> string \<Rightarrow> source_dnd_js" where
  "that_source_dnd_js src opts token =
     \<lparr>sources_dnd_js = toArray src,
      effects_dnd_js = token,
      data_dnd_js = opt_data opts,
      view_dnd_js = opt_view opts,
      onStart_dnd_js = opt_onStart opts,
      onCancel_dnd_js = opt_onCancel opts,
      onDrop_dnd_js = opt_onDrop opts\<rparr>"

definition createSource_dnd_js ::
  "elem option one_or_many \<Rightarrow> source_options option \<Rightarrow> document
     \<Rightarrow> (error + source_dnd_js) \<times> document" where
  "createSource_dnd_js src options doc =
     (case checkOptions_dnd_js options of
        Some e \<Rightarrow> (Inl e, doc)
      | None \<Rightarrow>
          (case options of
             None \<Rightarrow> (Inl TypeError, doc)
           | Some opts \<Rightarrow>
               (case createEffectString (opt_effects opts) of
                  Inl e \<Rightarrow> (Inl e, doc)
                | Inr token \<Rightarrow>
                    (let that = that_source_dnd_js src opts token;
                         r = and_then (makeDraggable_dnd_js that doc)
                               (setupSourceEvents_dnd_js that)
                     in case fst r of
                          Some e \<Rightarrow> (Inl e, snd r)
                        | None \<Rightarrow> (Inr that, snd r)))))"

text \<open>
  \<^verbatim>\<open>createTarget\<close> (lines 218 to 230) builds its descriptor and calls
  \<^verbatim>\<open>setupTargetEvents\<close>, which adds to each element of \<^verbatim>\<open>dt.targets\<close> the listeners for
  \<^verbatim>\<open>dragenter\<close>, \<^verbatim>\<open>dragleave\<close>, \<^verbatim>\<open>dragover\<close> and \<^verbatim>\<open>drop\<close>, in this order. Reading
  \<^verbatim>\<open>options.effect\<close> throws a \<^verbatim>\<open>TypeError\<close> when \<^verbatim>\<open>options\<close> is \<^verbatim>\<open>undefined\<close> or \<^verbatim>\<open>null\<close>.
\<close>

record target_options =
  opt_effect :: string
  opt_accepts :: jsval
  opt_onEnter :: "elem callback option"
  opt_onLeave :: "elem callback option"
  opt_onDrop_target :: "drop_record callback option"

definition setupTargetEvents :: "target \<Rightarrow> document \<Rightarrow> error option \<times> document" where
  "setupTargetEvents dt doc =
     forEach (targets dt)
       (\<lambda>tg d. and_then (addEventListener ''dragenter'' (DragEnterListener dt) tg d)
                 (\<lambda>d1. and_then (addEventListener ''dragleave'' (DragLeaveListener dt) tg d1)
                   (\<lambda>d2. and_then (addEventListener ''dragover'' (DragOverListener dt) tg d2)
                     (addEventListener ''drop'' (DropListener dt) tg))))
       doc"

definition that_target :: "elem option one_or_many \<Rightarrow> target_options \<Rightarrow> target" where
  "that_target elmts opts =
     \<lparr>targets = toArray elmts,
      effect = opt_effect opts,
      accepts = opt_accepts opts,
      onEnter = opt_onEnter opts,
      onLeave = opt_onLeave opts,
      onDrop_target = opt_onDrop_target opts\<rparr>"

definition createTarget ::
  "elem option one_or_many \<Rightarrow> target_options option \<Rightarrow> document
     \<Rightarrow> (error + target) \<times> document" where
  "createTarget elmts options doc =
     (case options of
        None \<Rightarrow> (Inl TypeError, doc)
      | Some opts \<Rightarrow>
          (let that = that_target elmts opts;
               r = setupTargetEvents that doc
           in case fst r of
                Some e \<Rightarrow> (Inl e, snd r)
              | None \<Rightarrow> (Inr that, snd r)))"

section \<open>Notions used to state the properties\<close>

text \<open>
  The normalisation rule as the specification words it, on a collection of effect names:
  no element gives \<^verbatim>\<open>none\<close>, one element gives that element, the full set of the three
  effects gives \<^verbatim>\<open>all\<close>, and otherwise the collection is sorted ascending and folded from
  the left, the first element verbatim and each later one with its first character
  upper-cased. It is not part of the code; the code is compared with it.
\<close>

definition encode_rule :: "string list \<Rightarrow> string" where
  "encode_rule names =
     (if length names = 0 then ''none''
      else if length names = 1 then names ! 0
      else if length names = 3 \<and> set names = {''move'', ''copy'', ''link''} then ''all''
      else (case sort names of
              [] \<Rightarrow> []
            | x # xs \<Rightarrow> foldl (\<lambda>acc s. acc @ capitalize s) x xs))"

text \<open>A collection of strings, as a value.\<close>

fun is_string_collection :: "jsval \<Rightarrow> bool" where
  "is_string_collection (Arr xs) = list_all is_string xs"
| "is_string_collection v = False"

text \<open>A callback that is absent, or that returns on the given argument instead of throwing.\<close>

definition returns :: "'a callback option \<Rightarrow> 'a \<Rightarrow> bool" where
  "returns cb x =
     (case cb of
        None \<Rightarrow> True
      | Some f \<Rightarrow> (case f x of Inl e \<Rightarrow> False | Inr r \<Rightarrow> True))"

text \<open>A callback that is present and throws the given exception on the given argument.\<close>

definition throws :: "'a callback option \<Rightarrow> 'a \<Rightarrow> error \<Rightarrow> bool" where
  "throws cb x e = (case cb of None \<Rightarrow> False | Some f \<Rightarrow> f x = Inl e)"

text \<open>
  The events that may lie between the \<^verbatim>\<open>dragstart\<close> and the end of one gesture, a drop
  apart: the pointer entering, hovering over and leaving targets.
\<close>

fun hover :: "event \<Rightarrow> bool" where
  "hover (DragEnter dt el tr) = True"
| "hover (DragLeave dt el) = True"
| "hover (DragOver dt el) = True"
| "hover ev = False"

subsection \<open>Concrete configurations\<close>

text \<open>
  A fresh carrier, a document without attributes or listeners, and callbacks that return
  \<^verbatim>\<open>undefined\<close> and \<^verbatim>\<open>true\<close>.
\<close>

definition blank :: carrier where
  "blank = \<lparr>effectAllowed = ''uninitialized'', dropEffect = ''none'', dragImage = None,
             items = []\<rparr>"

definition empty_document :: document where
  "empty_document = (\<lambda>el. \<lparr>attributes = [], listeners = []\<rparr>)"

definition ok :: "'a callback" where
  "ok x = Inr Undefined"

definition yes :: "'a callback" where
  "yes x = Inr (Bool True)"

text \<open>
  The options \<^verbatim>\<open>{data: 'hello', effects: 'copy', onStart: ok, onCancel: ok, onDrop: ok}\<close>
  and the descriptor that the object literal of \<^verbatim>\<open>createSource\<close> builds for them and the
  element 1; the same with
  \<^verbatim>\<open>data: [{type: 'text', value: 'a'}, {type: 'custom', value: 'b'}]\<close>.
\<close>

definition hello_options :: source_options where
  "hello_options = \<lparr>opt_effects = Str ''copy'', opt_data = Item (Shorthand ''hello''),
                     opt_view = None, opt_onStart = Some ok, opt_onCancel = Some ok,
                     opt_onDrop = Some ok\<rparr>"

definition hello_source :: source where
  "hello_source = \<lparr>sources = [Some 1], effects = ''copy'', dataArray = [Shorthand ''hello''],
                    view = None, onStart = Some ok, onCancel = Some ok, onDrop = Some ok\<rparr>"

definition pair_source :: source where
  "pair_source = \<lparr>sources = [Some 1], effects = ''copy'',
                   dataArray = [Typed ''text'' ''a'', Typed ''custom'' ''b''],
                   view = None, onStart = Some ok, onCancel = Some ok, onDrop = Some ok\<rparr>"

definition pair_options :: source_options where
  "pair_options = \<lparr>opt_effects = Str ''copy'',
                    opt_data = Items [Typed ''text'' ''a'', Typed ''custom'' ''b''],
                    opt_view = None, opt_onStart = Some ok, opt_onCancel = Some ok,
                    opt_onDrop = Some ok\<rparr>"

text \<open>The options \<^verbatim>\<open>{effects: 42}\<close>.\<close>

definition bad_options :: source_options where
  "bad_options = \<lparr>opt_effects = Num 42, opt_data = NoData, opt_view = None,
                   opt_onStart = None, opt_onCancel = None, opt_onDrop = None\<rparr>"

text \<open>
  \<^verbatim>\<open>createTarget(e2, {effect: 'copy', onEnter: yes, onDrop: ok})\<close>, and
  \<^verbatim>\<open>createTarget(e2, {effect: 'copy'})\<close>, a target without callbacks.
\<close>

definition copy_target :: target where
  "copy_target = \<lparr>targets = [Some 2], effect = ''copy'', accepts = Undefined,
                   onEnter = Some yes, onLeave = None, onDrop_target = Some ok\<rparr>"

definition silent_target :: target where
  "silent_target = \<lparr>targets = [Some 2], effect = ''copy'', accepts = Undefined,
                     onEnter = None, onLeave = None, onDrop_target = None\<rparr>"

definition copy_options :: target_options where
  "copy_options = \<lparr>opt_effect = ''copy'', opt_accepts = Undefined, opt_onEnter = Some yes,
                    opt_onLeave = None, opt_onDrop_target = Some ok\<rparr>"

definition silent_options :: target_options where
  "silent_options = \<lparr>opt_effect = ''copy'', opt_accepts = Undefined, opt_onEnter = None,
                      opt_onLeave = None, opt_onDrop_target = None\<rparr>"

text \<open>The carriers of the two sources after their \<^verbatim>\<open>dragstart\<close>.\<close>

definition hello_carrier :: carrier where
  "hello_carrier = setSourceProperties hello_source blank"

definition pair_carrier :: carrier where
  "pair_carrier = setSourceProperties pair_source blank"

section \<open>Properties of the effect encoder\<close>

text \<open>An absent input and a single effect name are encoded as the rule says.\<close>

lemma createEffectString_absent: "createEffectString Undefined = Inr ''none''"
  by (simp add: createEffectString_def effectSwitch_def)

lemma createEffectString_name:
  "s \<noteq> [] \<Longrightarrow> createEffectString (Str s) = Inr s \<and> encode_rule [s] = s"
  by (simp add: createEffectString_def effectSwitch_def encode_rule_def)

text \<open>Every array is rejected, whatever it holds.\<close>

lemma createEffectString_array: "createEffectString (Arr xs) = Inl InvalidConfiguration"
  by (simp add: createEffectString_def)

text \<open>
  Were an array to reach the \<^verbatim>\<open>switch\<close>, the default branch would throw as well, although
  \<^verbatim>\<open>camelCase\<close> itself joins two names as the rule says.
\<close>

lemma effectSwitch_default:
  "length xs \<noteq> 0 \<Longrightarrow> length xs \<noteq> 1 \<Longrightarrow> length xs \<noteq> 3 \<Longrightarrow> effectSwitch xs = Inl TypeError"
  by (simp add: effectSwitch_def)

lemma camelCase_names:
  "a \<noteq> [] \<Longrightarrow> camelCase (Str a) (Str b) = Inr (Str (a @ capitalize b))"
  by simp

lemma camelCase_copy_move: "camelCase (Str ''copy'') (Str ''move'') = Inr (Str ''copyMove'')"
  by code_simp

text \<open>
  Claim C1. For every valid input (absent, one effect name, or a collection of the names
  \<^verbatim>\<open>move\<close>, \<^verbatim>\<open>copy\<close>, \<^verbatim>\<open>link\<close>) the encoder returns the token of the normalisation rule.
  The code does not: on the collections \<^verbatim>\<open>["move","copy"]\<close>, \<^verbatim>\<open>["link","copy"]\<close> and
  \<^verbatim>\<open>["move","copy","link"]\<close>, for which the rule gives \<^verbatim>\<open>copyMove\<close>, \<^verbatim>\<open>copyLink\<close> and
  \<^verbatim>\<open>all\<close>, \<^verbatim>\<open>createEffectString\<close> throws its \<^verbatim>\<open>Error\<close>.
\<close>

theorem createEffectString_rejects_collections:
  "createEffectString (Arr [Str ''move'', Str ''copy'']) = Inl InvalidConfiguration
   \<and> encode_rule [''move'', ''copy''] = ''copyMove''
   \<and> createEffectString (Arr [Str ''link'', Str ''copy'']) = Inl InvalidConfiguration
   \<and> encode_rule [''link'', ''copy''] = ''copyLink''
   \<and> createEffectString (Arr [Str ''move'', Str ''copy'', Str ''link'']) = Inl InvalidConfiguration
   \<and> encode_rule [''move'', ''copy'', ''link''] = ''all''"
proof -
  have "encode_rule [''move'', ''copy''] = ''copyMove''" by code_simp
  moreover have "encode_rule [''link'', ''copy''] = ''copyLink''" by code_simp
  moreover have "encode_rule [''move'', ''copy'', ''link''] = ''all''" by code_simp
  ultimately show ?thesis by (simp add: createEffectString_array)
qed

text \<open>The encoder ends with no other exception than its own.\<close>

lemma createEffectString_only_error: "createEffectString v = Inl e \<Longrightarrow> e = InvalidConfiguration"
  by (cases v) (auto simp: createEffectString_def effectSwitch_def split: if_splits)

lemma createEffectString_fails_iff:
  "\<not> is_array v \<Longrightarrow>
   (createEffectString v = Inl InvalidConfiguration) = (truthy v \<and> \<not> is_string v)"
  by (cases v) (auto simp: createEffectString_def effectSwitch_def)

lemma createEffectString_falsy: "\<not> truthy v \<Longrightarrow> createEffectString v = Inr ''none''"
  by (simp add: createEffectString_def effectSwitch_def)

text \<open>
  Claim C6, as stated, at the input \<^verbatim>\<open>0\<close>: it is not absent, no string and no collection
  of strings, and the encoder does not fail on it (it returns \<^verbatim>\<open>none\<close>), so the
  equivalence of the claim is false there.
\<close>

theorem createEffectString_zero_counterexample:
  "\<not> ((createEffectString (Num 0) = Inl InvalidConfiguration)
       = (Num 0 \<noteq> Undefined \<and> \<not> is_string (Num 0) \<and> \<not> is_string_collection (Num 0)))"
  by (simp add: createEffectString_def effectSwitch_def)

text \<open>
  What the other functions of the module end with. \<^verbatim>\<open>createSource\<close> of the file with the
  registry ends at its first statement; the one of \<^verbatim>\<open>src/js/dnd.js\<close> ends with the encoder's
  exception or with a \<^verbatim>\<open>TypeError\<close>; \<^verbatim>\<open>createTarget\<close> and the drop handler end with
  \<^verbatim>\<open>TypeError\<close>s of their own; every other exception of a handler is one that a callback
  threw.
\<close>

lemma createSource_ReferenceError: "createSource src options doc = (Inl ReferenceError, doc)"
  by (simp add: createSource_def checkOptions_def)

lemma and_then_error:
  "fst (and_then r k) = Some e \<Longrightarrow> fst r = Some e \<or> (fst r = None \<and> fst (k (snd r)) = Some e)"
  by (auto simp: and_then_def split: option.splits)

lemma forEach_error:
  assumes "\<And>x d e. fst (f x d) = Some e \<Longrightarrow> e = TypeError"
  shows "fst (forEach xs f doc) = Some e \<Longrightarrow> e = TypeError"
proof (induction xs arbitrary: doc)
  case Nil
  then show ?case by simp
next
  case (Cons x xs)
  from Cons.prems have "fst (f x doc) = Some e \<or> fst (forEach xs f (snd (f x doc))) = Some e"
    by (auto dest: and_then_error)
  then show ?case using assms Cons.IH by blast
qed

lemma setAttribute_error: "fst (setAttribute name v h doc) = Some e \<Longrightarrow> e = TypeError"
  by (auto simp: setAttribute_def split: option.splits)

lemma addEventListener_error: "fst (addEventListener kind l h doc) = Some e \<Longrightarrow> e = TypeError"
  by (auto simp: addEventListener_def split: option.splits)

lemma createSource_dnd_js_error:
  assumes "fst (createSource_dnd_js src options doc) = Inl e"
  shows "e = InvalidConfiguration \<or> e = TypeError"
proof (cases options)
  case None
  with assms show ?thesis by (simp add: createSource_dnd_js_def checkOptions_dnd_js_def)
next
  case (Some opts)
  show ?thesis
  proof (cases "createEffectString (opt_effects opts)")
    case (Inl e')
    with assms Some have "e = e'"
      by (simp add: createSource_dnd_js_def checkOptions_dnd_js_def)
    with Inl show ?thesis by (auto dest: createEffectString_only_error)
  next
    case (Inr token)
    let ?that = "that_source_dnd_js src opts token"
    from assms Some Inr
    have "fst (and_then (makeDraggable_dnd_js ?that doc) (setupSourceEvents_dnd_js ?that)) = Some e"
      by (simp add: createSource_dnd_js_def checkOptions_dnd_js_def Let_def split: option.splits)
    then have "fst (makeDraggable_dnd_js ?that doc) = Some e
               \<or> fst (setupSourceEvents_dnd_js ?that (snd (makeDraggable_dnd_js ?that doc))) = Some e"
      by (auto dest: and_then_error)
    then have "e = TypeError"
    proof
      assume "fst (makeDraggable_dnd_js ?that doc) = Some e"
      then show ?thesis
        unfolding makeDraggable_dnd_js_def
        by (rule forEach_error [rotated]) (rule setAttribute_error)
    next
      assume "fst (setupSourceEvents_dnd_js ?that (snd (makeDraggable_dnd_js ?that doc))) = Some e"
      then show ?thesis
        unfolding setupSourceEvents_dnd_js_def
        by (rule forEach_error [rotated]) (auto dest!: and_then_error addEventListener_error)
    qed
    then show ?thesis by simp
  qed
qed

lemma createTarget_error:
  assumes "fst (createTarget elmts options doc) = Inl e"
  shows "e = TypeError"
proof (cases options)
  case None
  with assms show ?thesis by (simp add: createTarget_def)
next
  case (Some opts)
  with assms have "fst (setupTargetEvents (that_target elmts opts) doc) = Some e"
    by (simp add: createTarget_def Let_def split: option.splits)
  then show ?thesis
    unfolding setupTargetEvents_def
    by (rule forEach_error [rotated]) (auto dest!: and_then_error addEventListener_error)
qed

lemma dragstart_error: "fst (dragstart ds el tr w) = Some e \<Longrightarrow> throws (onStart ds) el e"
  by (auto simp: dragstart_def throws_def Let_def split: option.splits sum.splits)

lemma dragend_error: "fst (dragend ds el w) = Some e \<Longrightarrow> throws (onCancel ds) el e"
  by (auto simp: dragend_def throws_def Let_def split: option.splits sum.splits if_splits)

lemma dragenter_error: "fst (dragenter dt el tr w) = Some e \<Longrightarrow> throws (onEnter dt) el e"
  by (auto simp: dragenter_def dragenter_with_def throws_def Let_def
        split: option.splits sum.splits)

lemma dragleave_error: "fst (dragleave dt el w) = Some e \<Longrightarrow> throws (onLeave dt) el e"
  by (auto simp: dragleave_def throws_def Let_def split: option.splits sum.splits)

lemma putAll_error: "putAll tr tys p = Inl e \<Longrightarrow> e = TypeError"
  by (induction tys arbitrary: p) (auto simp: put_def split: sum.splits if_splits payload.splits)

lemma buildPayload_error: "buildPayload tr = Inl e \<Longrightarrow> e = TypeError"
  unfolding buildPayload_def by (rule putAll_error)

lemma drop_handler_error:
  assumes "fst (drop_handler dt el tr w) = Some e"
  shows "e = TypeError \<or> (\<exists>r. throws (onDrop_target dt) r e)
         \<or> (\<exists>s r. current_source w = Some s \<and> throws (onDrop s) r e)"
proof (cases "onDrop_target dt")
  case None
  with assms show ?thesis by (simp add: drop_handler_def)
next
  case (Some f)
  show ?thesis
  proof (cases "buildPayload tr")
    case (Inl e')
    with assms Some have "e = e'" by (simp add: drop_handler_def)
    with Inl show ?thesis by (auto dest: buildPayload_error)
  next
    case (Inr p)
    let ?r = "\<lparr>fromElement = current_element w, toElement = el, data = p\<rparr>"
    show ?thesis
    proof (cases "f ?r")
      case (Inl e')
      with assms Some Inr have "e = e'" by (simp add: drop_handler_def Let_def)
      with Inl Some have "throws (onDrop_target dt) ?r e" by (simp add: throws_def)
      then show ?thesis by blast
    next
      case fr: (Inr x)
      show ?thesis
      proof (cases "current_source w")
        case None
        with assms Some Inr fr show ?thesis
          by (simp add: drop_handler_def invoke_def Let_def)
      next
        case cs: (Some s)
        show ?thesis
        proof (cases "onDrop s")
          case None
          with assms Some Inr fr cs show ?thesis
            by (simp add: drop_handler_def invoke_def clear_def Let_def)
        next
          case g: (Some g)
          with assms Some Inr fr cs have "g ?r = Inl e"
            by (simp add: drop_handler_def invoke_def clear_def Let_def split: sum.splits)
          with g cs have "current_source w = Some s \<and> throws (onDrop s) ?r e"
            by (simp add: throws_def)
          then show ?thesis by blast
        qed
      qed
    qed
  qed
qed

text \<open>
  Claim C6, amended. On an input that is no collection, the encoder fails with
  InvalidConfiguration if and only if the input is truthy and no string: every falsy value
  (\<^verbatim>\<open>undefined\<close>, \<^verbatim>\<open>null\<close>, \<^verbatim>\<open>false\<close>, \<^verbatim>\<open>0\<close>, \<^verbatim>\<open>NaN\<close>, the empty string) is taken for an
  absent input and encoded as \<^verbatim>\<open>none\<close>. In particular the encoder fails on \<^verbatim>\<open>42\<close>. And
  this is the only validated failure mode of the system: InvalidConfiguration is the only
  exception the encoder ends with, and every exception that a constructor or a handler
  ends with is InvalidConfiguration, or a \<^verbatim>\<open>TypeError\<close> or \<^verbatim>\<open>ReferenceError\<close> raised by the
  language, or one that a callback threw.
\<close>

theorem createEffectString_failure:
  "(\<not> is_array v \<longrightarrow>
      (createEffectString v = Inl InvalidConfiguration) = (truthy v \<and> \<not> is_string v))
   \<and> (\<not> truthy v \<longrightarrow> createEffectString v = Inr ''none'')
   \<and> createEffectString (Num 42) = Inl InvalidConfiguration
   \<and> (\<forall>e. createEffectString v = Inl e \<longrightarrow> e = InvalidConfiguration)
   \<and> (\<forall>e. fst (createSource src options doc) = Inl e \<longrightarrow> e = ReferenceError)
   \<and> (\<forall>e. fst (createSource_dnd_js src options doc) = Inl e \<longrightarrow>
          e = InvalidConfiguration \<or> e = TypeError)
   \<and> (\<forall>e. fst (createTarget elmts toptions doc) = Inl e \<longrightarrow> e = TypeError)
   \<and> (\<forall>e. fst (dragstart ds el tr w) = Some e \<longrightarrow> throws (onStart ds) el e)
   \<and> (\<forall>e. fst (dragend ds el w) = Some e \<longrightarrow> throws (onCancel ds) el e)
   \<and> (\<forall>e. fst (dragenter dt el tr w) = Some e \<longrightarrow> throws (onEnter dt) el e)
   \<and> (\<forall>e. fst (dragleave dt el w) = Some e \<longrightarrow> throws (onLeave dt) el e)
   \<and> fst (dragover dt el w) = None
   \<and> (\<forall>e. fst (drop_handler dt el tr w) = Some e \<longrightarrow>
          e = TypeError \<or> (\<exists>r. throws (onDrop_target dt) r e)
          \<or> (\<exists>s r. current_source w = Some s \<and> throws (onDrop s) r e))"
proof -
  have "createEffectString (Num 42) = Inl InvalidConfiguration"
    by (simp add: createEffectString_def)
  moreover have "fst (dragover dt el w) = None"
    by (simp add: dragover_def)
  ultimately show ?thesis
    using createEffectString_fails_iff [of v] createEffectString_falsy [of v]
      createEffectString_only_error [of v]
      createSource_ReferenceError [of src options doc]
      createSource_dnd_js_error [of src options doc]
      createTarget_error [of elmts toptions doc]
      dragstart_error [of ds el tr w] dragend_error [of ds el w]
      dragenter_error [of dt el tr w] dragleave_error [of dt el w]
      drop_handler_error [of dt el tr w]
    by (intro conjI allI impI) simp_all
qed

theorem createEffectString_failure_witness:
  "\<not> is_array (Obj []) \<and> truthy (Obj []) \<and> \<not> is_string (Obj [])
   \<and> createEffectString (Obj []) = Inl InvalidConfiguration
   \<and> \<not> truthy (Num 0) \<and> createEffectString (Num 0) = Inr ''none''
   \<and> createEffectString (Num 42) = Inl InvalidConfiguration
   \<and> fst (createSource_dnd_js (One (Some 1)) (Some bad_options) empty_document)
       = Inl InvalidConfiguration
   \<and> fst (createSource (One (Some 1)) (Some bad_options) empty_document) = Inl ReferenceError"
  using createEffectString_failure [where v = "Obj []" and src = "One (Some 1)"
      and options = "Some bad_options" and doc = empty_document and elmts = "One (Some 2)"
      and toptions = None and ds = hello_source and el = 1 and tr = blank and w = initial
      and dt = copy_target]
    createEffectString_failure [where v = "Num 0" and src = "One (Some 1)"
      and options = "Some bad_options" and doc = empty_document and elmts = "One (Some 2)"
      and toptions = None and ds = hello_source and el = 1 and tr = blank and w = initial
      and dt = copy_target]
  by (simp add: createSource_def checkOptions_def createSource_dnd_js_def
        checkOptions_dnd_js_def bad_options_def createEffectString_def)

section \<open>Properties of construction\<close>

text \<open>
  The descriptors used below are the object literals of the constructors for the options
  given; \<^verbatim>\<open>createTarget\<close> returns them.
\<close>

lemma that_source_examples:
  "that_source (One (Some 1)) hello_options ''copy'' = hello_source
   \<and> that_source (One (Some 1)) pair_options ''copy'' = pair_source
   \<and> createEffectString (opt_effects hello_options) = Inr ''copy''
   \<and> createEffectString (opt_effects pair_options) = Inr ''copy''"
  by (simp add: that_source_def hello_options_def pair_options_def hello_source_def
        pair_source_def createEffectString_def effectSwitch_def)

lemma createTarget_examples:
  "fst (createTarget (One (Some 2)) (Some copy_options) doc) = Inr copy_target
   \<and> fst (createTarget (One (Some 2)) (Some silent_options) doc) = Inr silent_target"
  by (simp add: createTarget_def that_target_def setupTargetEvents_def and_then_def
        addEventListener_def copy_options_def silent_options_def copy_target_def
        silent_target_def Let_def)

lemma createTarget_registers:
  "map fst (listeners (snd (createTarget (One (Some 2)) (Some copy_options) empty_document) 2))
     = [''dragenter'', ''dragleave'', ''dragover'', ''drop'']"
  by (simp add: createTarget_def that_target_def setupTargetEvents_def and_then_def
        addEventListener_def empty_document_def Let_def)

text \<open>
  In \<^verbatim>\<open>src/js/dnd.js\<close> a successful construction marks the element and attaches both
  listeners, and a \<^verbatim>\<open>null\<close> among the elements ends the construction after the elements
  before it have been marked.
\<close>

lemma createSource_dnd_js_registers:
  "fst (createSource_dnd_js (One (Some 1)) (Some hello_options) empty_document)
     = Inr (that_source_dnd_js (One (Some 1)) hello_options ''copy'')
   \<and> attributes (snd (createSource_dnd_js (One (Some 1)) (Some hello_options) empty_document) 1)
       = [(''draggable'', ''true'')]
   \<and> map fst (listeners
         (snd (createSource_dnd_js (One (Some 1)) (Some hello_options) empty_document) 1))
       = [''dragstart'', ''dragend'']"
  by (simp add: createSource_dnd_js_def checkOptions_dnd_js_def hello_options_def
        createEffectString_def effectSwitch_def that_source_dnd_js_def makeDraggable_dnd_js_def
        setupSourceEvents_dnd_js_def and_then_def setAttribute_def addEventListener_def
        empty_document_def Let_def)

lemma createSource_dnd_js_null_element:
  "fst (createSource_dnd_js (Many [Some 1, None]) (Some hello_options) empty_document)
     = Inl TypeError
   \<and> attributes
         (snd (createSource_dnd_js (Many [Some 1, None]) (Some hello_options) empty_document) 1)
       = [(''draggable'', ''true'')]"
  by (simp add: createSource_dnd_js_def checkOptions_dnd_js_def hello_options_def
        createEffectString_def effectSwitch_def that_source_dnd_js_def makeDraggable_dnd_js_def
        setupSourceEvents_dnd_js_def and_then_def setAttribute_def addEventListener_def
        empty_document_def Let_def)

text \<open>
  Claim C9. When the effect encoder raises InvalidConfiguration during \<^verbatim>\<open>createSource\<close>,
  construction ends before any element is marked draggable and before any listener is
  attached: no element is modified. In \<^verbatim>\<open>src/js/dnd.js\<close>, whose \<^verbatim>\<open>createSource\<close> reaches the
  encoder, the call ends with the encoder's exception and the document is as it was. In
  the file with the registry the call of the undeclared \<^verbatim>\<open>checkOptions\<close> ends
  \<^verbatim>\<open>createSource\<close> before the encoder is reached, with a \<^verbatim>\<open>ReferenceError\<close>, and the document
  is as it was, too.
\<close>

theorem createSource_aborts_unchanged:
  "(createEffectString (opt_effects opts) = Inl e \<longrightarrow>
      createSource_dnd_js src (Some opts) doc = (Inl e, doc))
   \<and> createSource src options doc = (Inl ReferenceError, doc)"
  by (simp add: createSource_dnd_js_def checkOptions_dnd_js_def createSource_def
        checkOptions_def)

theorem createSource_aborts_unchanged_witness:
  "createEffectString (opt_effects bad_options) = Inl InvalidConfiguration
   \<and> createSource_dnd_js (Many [Some 1, Some 2, Some 3]) (Some bad_options) empty_document
       = (Inl InvalidConfiguration, empty_document)
   \<and> createSource (Many [Some 1, Some 2, Some 3]) (Some bad_options) empty_document
       = (Inl ReferenceError, empty_document)"
proof -
  have h: "createEffectString (opt_effects bad_options) = Inl InvalidConfiguration"
    by (simp add: bad_options_def createEffectString_def)
  from createSource_aborts_unchanged [where opts = bad_options and e = InvalidConfiguration
      and src = "Many [Some 1, Some 2, Some 3]" and doc = empty_document
      and options = "Some bad_options"] h
  show ?thesis by simp
qed

section \<open>Properties of the source handlers\<close>



text \<open>After \<^verbatim>\<open>dragstart\<close> the registry is populated, whatever \<^verbatim>\<open>onStart\<close> does.\<close>

lemma dragstart_registry:
  "current_source (snd (snd (dragstart ds el tr w))) = Some ds
   \<and> current_element (snd (snd (dragstart ds el tr w))) = Some el"
  by (simp add: dragstart_def invoke_def Let_def split: option.splits sum.splits)

lemma dragstart_calls:
  "calls (snd (snd (dragstart ds el tr w)))
     = calls w @ (case onStart ds of
                    None \<Rightarrow> []
                  | Some f \<Rightarrow> [\<lparr>callee = OnStart, argument = ElemArg el, source_then = Some ds,
                                 element_then = Some el,
                                 transfer_then = Some (setSourceProperties ds tr)\<rparr>])"
  by (simp add: dragstart_def invoke_def Let_def split: option.splits sum.splits)

lemma dragend_calls:
  "current_source w \<noteq> None \<Longrightarrow>
   calls (snd (dragend ds el w))
     = calls w @ (case onCancel ds of
                    None \<Rightarrow> []
                  | Some f \<Rightarrow> [\<lparr>callee = OnCancel, argument = ElemArg el,
                                 source_then = current_source w,
                                 element_then = current_element w, transfer_then = None\<rparr>])"
  by (simp add: dragend_def invoke_def clear_def Let_def split: option.splits sum.splits)

lemma dragend_idle:
  "returns (onCancel ds) el \<Longrightarrow> Idle (snd (dragend ds el w)) \<or> current_source w = None"
  by (auto simp: dragend_def returns_def invoke_def clear_def Idle_def Let_def
        split: option.splits sum.splits)

text \<open>The \<^verbatim>\<open>dragend\<close> handler runs to its end unless the \<^verbatim>\<open>onCancel\<close> it invokes throws.\<close>

lemma dragend_completes:
  "(fst (dragend ds el w) = None) = (current_source w = None \<or> returns (onCancel ds) el)"
  by (auto simp: dragend_def returns_def Let_def split: option.splits sum.splits)

text \<open>
  The events between \<^verbatim>\<open>dragstart\<close> and the end of a gesture leave the registry as it is
  and invoke no other callbacks than \<^verbatim>\<open>onEnter\<close> and \<^verbatim>\<open>onLeave\<close>.
\<close>

lemma hover_step:
  assumes "hover ev"
  shows "current_source (step w ev) = current_source w"
    and "current_element (step w ev) = current_element w"
    and "c \<noteq> OnEnter \<Longrightarrow> c \<noteq> OnLeave \<Longrightarrow> invocations c (step w ev) = invocations c w"
  using assms
  by (cases ev;
      simp add: dragenter_def dragenter_with_def dragleave_def dragover_def invoke_def
        invocations_def Let_def split: option.splits sum.splits)+

lemma hover_run:
  assumes "list_all hover mid"
  shows "current_source (run w mid) = current_source w"
    and "current_element (run w mid) = current_element w"
    and "c \<noteq> OnEnter \<Longrightarrow> c \<noteq> OnLeave \<Longrightarrow> invocations c (run w mid) = invocations c w"
  using assms
  by (induction mid arbitrary: w) (simp_all add: run_def hover_step)

text \<open>
  Claim C5. For every gesture that consists of \<^verbatim>\<open>dragstart\<close> on a source, any events of
  entering, hovering over and leaving targets, and that source's \<^verbatim>\<open>dragend\<close>, with no drop
  in between: the source's \<^verbatim>\<open>onCancel\<close> callback (if it has one) is invoked exactly once,
  with the dragged element and the registry still populated; no \<^verbatim>\<open>onDrop\<close> callback of a
  source or a target is invoked; and afterwards the registry is idle, the callback having
  returned.
\<close>

theorem drag_cancelled:
  "list_all hover mid \<Longrightarrow>
   invocations OnCancel (run w (DragStart ds el tr # mid @ [DragEnd ds el]))
     = invocations OnCancel w
       @ (case onCancel ds of
            None \<Rightarrow> []
          | Some f \<Rightarrow> [\<lparr>callee = OnCancel, argument = ElemArg el, source_then = Some ds,
                         element_then = Some el, transfer_then = None\<rparr>])
   \<and> invocations SourceOnDrop (run w (DragStart ds el tr # mid @ [DragEnd ds el]))
       = invocations SourceOnDrop w
   \<and> invocations TargetOnDrop (run w (DragStart ds el tr # mid @ [DragEnd ds el]))
       = invocations TargetOnDrop w
   \<and> (returns (onCancel ds) el \<longrightarrow>
        Idle (run w (DragStart ds el tr # mid @ [DragEnd ds el])))"
proof -
  assume mid: "list_all hover mid"
  let ?w1 = "snd (snd (dragstart ds el tr w))"
  let ?w2 = "run ?w1 mid"
  have r: "run w (DragStart ds el tr # mid @ [DragEnd ds el]) = snd (dragend ds el ?w2)"
    by (simp add: run_def)
  have s2: "current_source ?w2 = Some ds" and e2: "current_element ?w2 = Some el"
    by (simp_all add: hover_run [OF mid] dragstart_registry)
  have inv2: "invocations c ?w2 = invocations c w"
    if "c = OnCancel \<or> c = SourceOnDrop \<or> c = TargetOnDrop" for c
  proof -
    from that have "invocations c ?w2 = invocations c ?w1"
      by (intro hover_run(3) [OF mid]) auto
    also from that have "\<dots> = invocations c w"
      by (auto simp: invocations_def dragstart_calls split: option.splits)
    finally show ?thesis .
  qed
  have p: "current_source ?w2 \<noteq> None"
    by (simp add: s2)
  have c: "invocations k (snd (dragend ds el ?w2))
             = invocations k ?w2
               @ filter (\<lambda>i. callee i = k)
                   (case onCancel ds of
                      None \<Rightarrow> []
                    | Some f \<Rightarrow> [\<lparr>callee = OnCancel, argument = ElemArg el,
                                   source_then = Some ds, element_then = Some el,
                                   transfer_then = None\<rparr>])" for k
    by (simp add: invocations_def dragend_calls [OF p] s2 e2 split: option.splits)
  have i: "returns (onCancel ds) el \<longrightarrow> Idle (snd (dragend ds el ?w2))"
    using dragend_idle [of ds el ?w2] p by auto
  show ?thesis
    unfolding r using i by (simp add: c inv2 split: option.splits)
qed

theorem drag_cancelled_witness:
  "list_all hover [DragEnter copy_target 2 hello_carrier, DragOver copy_target 2,
                   DragLeave copy_target 2]
   \<and> returns (onCancel hello_source) 1
   \<and> map (\<lambda>i. (callee i, argument i))
         (invocations OnCancel
           (run initial [DragStart hello_source 1 blank, DragEnter copy_target 2 hello_carrier,
                         DragOver copy_target 2, DragLeave copy_target 2,
                         DragEnd hello_source 1]))
       = [(OnCancel, ElemArg 1)]
   \<and> invocations SourceOnDrop
         (run initial [DragStart hello_source 1 blank, DragEnter copy_target 2 hello_carrier,
                       DragOver copy_target 2, DragLeave copy_target 2,
                       DragEnd hello_source 1]) = []
   \<and> invocations TargetOnDrop
         (run initial [DragStart hello_source 1 blank, DragEnter copy_target 2 hello_carrier,
                       DragOver copy_target 2, DragLeave copy_target 2,
                       DragEnd hello_source 1]) = []
   \<and> Idle (run initial [DragStart hello_source 1 blank, DragEnter copy_target 2 hello_carrier,
                         DragOver copy_target 2, DragLeave copy_target 2,
                         DragEnd hello_source 1])"
proof -
  have m: "list_all hover [DragEnter copy_target 2 hello_carrier, DragOver copy_target 2,
                           DragLeave copy_target 2]"
    by simp
  have h: "returns (onCancel hello_source) 1"
    by (simp add: returns_def hello_source_def ok_def)
  have n: "onCancel hello_source = Some ok"
    by (simp add: hello_source_def)
  from drag_cancelled [OF m, of initial hello_source 1 blank] m h n
  show ?thesis by (simp add: invocations_def initial_def)
qed

text \<open>
  An \<^verbatim>\<open>onCancel\<close> that throws ends the handler before the registry is cleared.
\<close>

lemma dragend_callback_throws:
  "current_source w \<noteq> None \<Longrightarrow> onCancel ds = Some f \<Longrightarrow> f el = Inl e \<Longrightarrow>
   fst (dragend ds el w) = Some e \<and> current_source (snd (dragend ds el w)) = current_source w"
  by (simp add: dragend_def invoke_def Let_def)

section \<open>Properties of the target handlers\<close>

text \<open>
  Claim C7. On \<^verbatim>\<open>dragenter\<close>, a target without \<^verbatim>\<open>onEnter\<close> callback always signals
  acceptance (it calls \<^verbatim>\<open>preventDefault\<close>); a target with an \<^verbatim>\<open>onEnter\<close> callback signals
  acceptance if and only if the callback returns a value that the test of the \<^verbatim>\<open>if\<close>
  takes for true, which for a Boolean result is the value \<^verbatim>\<open>true\<close>.
\<close>

theorem dragenter_acceptance:
  "(onEnter dt = None \<longrightarrow> fst (snd (dragenter dt el tr w)))
   \<and> (onEnter dt = Some f \<longrightarrow>
        fst (snd (dragenter dt el tr w)) = (\<exists>r. f el = Inr r \<and> truthy r))
   \<and> (onEnter dt = Some f \<and> f el = Inr (Bool b) \<longrightarrow> fst (snd (dragenter dt el tr w)) = b)"
  by (auto simp: dragenter_def dragenter_with_def Let_def split: sum.splits)

theorem dragenter_acceptance_witness:
  "onEnter silent_target = None \<and> fst (snd (dragenter silent_target 2 blank initial))
   \<and> onEnter copy_target = Some yes \<and> yes (2::nat) = Inr (Bool True)
   \<and> fst (snd (dragenter copy_target 2 blank initial))"
  using dragenter_acceptance [where dt = silent_target and el = 2 and tr = blank and w = initial]
    dragenter_acceptance [where dt = copy_target and f = yes and el = 2 and b = True
      and tr = blank and w = initial]
  by (simp add: silent_target_def copy_target_def yes_def)

text \<open>
  The \<^verbatim>\<open>dragenter\<close> handler of \<^verbatim>\<open>src/js/dnd.js\<close> writes the target's effect into the carrier
  before it consults \<^verbatim>\<open>onEnter\<close>; the handler of the file with the registry leaves the
  carrier as it was.
\<close>

lemma dragenter_dnd_js_writes:
  "dropEffect (fst (snd (snd (dragenter_dnd_js dt el tr w)))) = effect dt
   \<and> (\<forall>i \<in> set (calls (snd (snd (snd (dragenter_dnd_js dt el tr w))))) - set (calls w).
        map_option dropEffect (transfer_then i) = Some (effect dt))"
  by (auto simp: dragenter_dnd_js_def dragenter_with_def setTargetProperties_dnd_js_def
        invoke_def Let_def split: option.splits sum.splits)

lemma dragenter_carrier_unchanged:
  "fst (snd (snd (dragenter dt el tr w))) = tr"
  by (simp add: dragenter_def dragenter_with_def setTargetProperties_def Let_def
        split: option.splits sum.splits)

text \<open>
  Claim C4. On every \<^verbatim>\<open>dragenter\<close> event the handler writes the target's configured effect
  into the carrier's drop-effect field before \<^verbatim>\<open>onEnter\<close> is consulted. The code does not:
  for the target with effect \<^verbatim>\<open>copy\<close> and a carrier whose drop effect is \<^verbatim>\<open>none\<close>, the
  drop effect is \<^verbatim>\<open>none\<close> when \<^verbatim>\<open>onEnter\<close> is invoked and \<^verbatim>\<open>none\<close> when the handler ends.
\<close>

theorem dragenter_no_dropEffect:
  "effect copy_target = ''copy''
   \<and> dropEffect blank = ''none''
   \<and> map (\<lambda>i. (callee i, map_option dropEffect (transfer_then i)))
         (calls (snd (snd (snd (dragenter copy_target 2 blank initial)))))
       = [(OnEnter, Some ''none'')]
   \<and> dropEffect (fst (snd (snd (dragenter copy_target 2 blank initial)))) = ''none''"
  by (simp add: dragenter_def dragenter_with_def setTargetProperties_def copy_target_def
        blank_def initial_def invoke_def yes_def Let_def)

section \<open>The drop handler\<close>

text \<open>
  With more than one type, or none, the payload is the mapping from each available type to
  its value.
\<close>

lemma putAll_mapping:
  "''__proto__'' \<notin> set tys \<Longrightarrow>
   \<exists>m'. putAll tr tys (Mapping m) = Inr (Mapping m') \<and>
        map_of m' = (\<lambda>ty. if ty \<in> set tys then Some (getData tr ty) else map_of m ty)"
proof (induction tys arbitrary: m)
  case Nil
  then show ?case by simp
next
  case (Cons ty tys)
  from Cons.prems have np: "ty \<noteq> ''__proto__''" and rest: "''__proto__'' \<notin> set tys"
    by auto
  from Cons.IH [OF rest, of "AList.update ty (getData tr ty) m"]
  obtain m' where m': "putAll tr tys (Mapping (AList.update ty (getData tr ty) m)) = Inr (Mapping m')"
    and mo: "map_of m' = (\<lambda>t. if t \<in> set tys then Some (getData tr t)
                               else map_of (AList.update ty (getData tr ty) m) t)"
    by blast
  have "putAll tr (ty # tys) (Mapping m) = Inr (Mapping m')"
    using np m' by (simp add: put_def)
  moreover have "map_of m' = (\<lambda>t. if t \<in> set (ty # tys) then Some (getData tr t) else map_of m t)"
    unfolding mo by (auto simp: update_conv fun_eq_iff)
  ultimately show ?case by blast
qed

lemma buildPayload_mapping:
  assumes "length (types tr) \<noteq> 1" and "''__proto__'' \<notin> set (types tr)"
  shows "\<exists>m. buildPayload tr = Inr (Mapping m) \<and>
             map_of m = (\<lambda>ty. if ty \<in> set (types tr) then Some (getData tr ty) else None)"
proof -
  from putAll_mapping [OF assms(2), of tr "[]"]
  obtain m where "putAll tr (types tr) (Mapping []) = Inr (Mapping m)"
    and "map_of m = (\<lambda>ty. if ty \<in> set (types tr) then Some (getData tr ty) else map_of [] ty)"
    by blast
  with assms(1) show ?thesis by (simp add: buildPayload_def cong: if_cong)
qed

text \<open>With exactly one type the assignment in the loop throws.\<close>

lemma buildPayload_single:
  "length (types tr) = 1 \<Longrightarrow> types tr \<noteq> [''__proto__''] \<Longrightarrow> buildPayload tr = Inl TypeError"
  by (cases "types tr") (auto simp: buildPayload_def put_def)

lemma hello_carrier_types: "types hello_carrier = [''text''] \<and> getData hello_carrier ''text'' = ''hello''"
  by (simp add: hello_carrier_def setSourceProperties_def hello_source_def blank_def
        types_def getData_def setItem_def setData_def)

lemma pair_carrier_types: "types pair_carrier = [''text'', ''custom'']"
  by (simp add: pair_carrier_def setSourceProperties_def pair_source_def blank_def
        types_def setItem_def setData_def)

lemma hello_payload: "buildPayload hello_carrier = Inl TypeError"
  using hello_carrier_types by (simp add: buildPayload_single)

lemma pair_payload:
  "buildPayload pair_carrier = Inr (Mapping [(''text'', ''a''), (''custom'', ''b'')])"
  by (simp add: buildPayload_def pair_carrier_types put_def)
     (simp add: pair_carrier_def setSourceProperties_def pair_source_def blank_def
        getData_def setItem_def setData_def)

text \<open>A target without \<^verbatim>\<open>onDrop\<close> callback: the handler does nothing at all.\<close>

lemma drop_without_callback:
  "onDrop_target dt = None \<Longrightarrow> drop_handler dt el tr w = (None, w)"
  by (simp add: drop_handler_def)

text \<open>
  When the target has an \<^verbatim>\<open>onDrop\<close> callback, the payload could be built and the callbacks
  return, the handler invokes the target's callback, then the source's, with equal records,
  and clears the registry.
\<close>

lemma drop_delivers:
  assumes "onDrop_target dt = Some f" and "buildPayload tr = Inr p"
    and "current_source w = Some s" and "onDrop s = Some g"
    and "r = \<lparr>fromElement = current_element w, toElement = el, data = p\<rparr>"
    and "f r = Inr x" and "g r = Inr y"
  shows "map (\<lambda>i. (callee i, argument i)) (calls (snd (drop_handler dt el tr w)))
           = map (\<lambda>i. (callee i, argument i)) (calls w)
             @ [(TargetOnDrop, DropArg r), (SourceOnDrop, DropArg r)]
         \<and> Idle (snd (drop_handler dt el tr w))"
  using assms by (simp add: drop_handler_def invoke_def clear_def Idle_def Let_def)

lemma pair_gesture:
  "map callee (calls (run initial [DragStart pair_source 1 blank, Drop copy_target 2 pair_carrier]))
     = [OnStart, TargetOnDrop, SourceOnDrop]
   \<and> Idle (run initial [DragStart pair_source 1 blank, Drop copy_target 2 pair_carrier])"
  by (simp add: run_def dragstart_def drop_handler_def pair_payload invoke_def clear_def Idle_def
        initial_def pair_source_def copy_target_def ok_def Let_def)

text \<open>
  Claim C2. For every gesture of \<^verbatim>\<open>dragstart\<close> on a registered source followed by a drop on
  a registered target, the target's \<^verbatim>\<open>onDrop\<close> and then the source's \<^verbatim>\<open>onDrop\<close> are each
  invoked exactly once, with the same payload, and afterwards the registry is idle. The
  code does not do so. For the source with the data \<^verbatim>\<open>'hello'\<close> and the target with an
  \<^verbatim>\<open>onDrop\<close> callback, the drop handler ends with a \<^verbatim>\<open>TypeError\<close>: no \<^verbatim>\<open>onDrop\<close> is invoked
  and the registry stays populated. For the source with two data items and a target
  without \<^verbatim>\<open>onDrop\<close> callback, the source's \<^verbatim>\<open>onDrop\<close> is not invoked and the registry
  stays populated, so that the \<^verbatim>\<open>dragend\<close> that follows the drop invokes \<^verbatim>\<open>onCancel\<close>.
\<close>

theorem drop_gesture_fails:
  "fst (drop_handler copy_target 2 hello_carrier (run initial [DragStart hello_source 1 blank]))
     = Some TypeError
   \<and> map callee (calls (run initial [DragStart hello_source 1 blank,
                                      Drop copy_target 2 hello_carrier])) = [OnStart]
   \<and> Dragging (run initial [DragStart hello_source 1 blank, Drop copy_target 2 hello_carrier])
   \<and> map callee (calls (run initial [DragStart pair_source 1 blank,
                                      Drop silent_target 2 pair_carrier])) = [OnStart]
   \<and> Dragging (run initial [DragStart pair_source 1 blank, Drop silent_target 2 pair_carrier])
   \<and> map callee (calls (run initial [DragStart pair_source 1 blank,
                                      Drop silent_target 2 pair_carrier,
                                      DragEnd pair_source 1])) = [OnStart, OnCancel]"
  by (simp add: run_def dragstart_def dragend_def drop_handler_def hello_payload invoke_def
        clear_def Dragging_def initial_def hello_source_def pair_source_def copy_target_def
        silent_target_def ok_def Let_def)

text \<open>
  Claim C3. On a drop, when exactly one type is available the payload passed to the
  \<^verbatim>\<open>onDrop\<close> callbacks is that type's bare string value, and with more than one type it is
  the mapping from each type to its value. The second half holds (lemma
  \<open>buildPayload_mapping\<close>). The first does not: for the carrier whose only type is
  \<^verbatim>\<open>text\<close>, with value \<^verbatim>\<open>hello\<close>, building the payload ends with a \<^verbatim>\<open>TypeError\<close> and the
  handler invokes no callback.
\<close>

theorem single_type_payload_throws:
  "types hello_carrier = [''text'']
   \<and> getData hello_carrier ''text'' = ''hello''
   \<and> buildPayload hello_carrier = Inl TypeError
   \<and> drop_handler copy_target 2 hello_carrier initial = (Some TypeError, initial)"
  by (simp add: hello_carrier_types hello_payload drop_handler_def copy_target_def)

section \<open>The registry invariant\<close>

lemma step_registry:
  "Idle w \<or> Dragging w \<Longrightarrow> Idle (step w ev) \<or> Dragging (step w ev)"
  by (cases ev)
     (auto simp: Idle_def Dragging_def dragstart_def dragend_def dragenter_def
        dragenter_with_def dragleave_def dragover_def drop_handler_def invoke_def clear_def
        Let_def split: option.splits sum.splits)

lemma run_registry:
  "Idle w \<or> Dragging w \<Longrightarrow> Idle (run w evs) \<or> Dragging (run w evs)"
proof (induction evs arbitrary: w)
  case Nil
  then show ?case by (simp add: run_def)
next
  case (Cons ev evs)
  from Cons.IH [OF step_registry [OF Cons.prems, of ev]]
  show ?case by (simp add: run_def)
qed

text \<open>
  Claim C8. In every reachable state, that is after every sequence of events from the
  initial state, the registry is idle (both fields empty) or dragging (both populated):
  no handler leaves it partially populated, also when a handler ends with an exception.
\<close>

theorem registry_invariant:
  "Idle (run initial evs) \<or> Dragging (run initial evs)"
  by (rule run_registry) (simp add: Idle_def initial_def)

theorem registry_invariant_witness:
  "Dragging (run initial [DragStart hello_source 1 blank, DragEnter copy_target 2 hello_carrier,
                           Drop copy_target 2 hello_carrier])
   \<and> Idle (run initial [DragStart hello_source 1 blank, DragEnd hello_source 1])"
  using registry_invariant [of "[DragStart hello_source 1 blank, DragEnter copy_target 2 hello_carrier,
                           Drop copy_target 2 hello_carrier]"]
    registry_invariant [of "[DragStart hello_source 1 blank, DragEnd hello_source 1]"]
  by (simp add: run_def dragstart_def dragend_def dragenter_def dragenter_with_def
        drop_handler_def hello_payload invoke_def clear_def Idle_def Dragging_def
        initial_def hello_source_def copy_target_def ok_def yes_def Let_def)

end
